theory Spec2Isabelle
  imports Main "HOL-Library.Word"
begin

unbundle bit_operations_syntax

section \<open>Go and cgo values\<close>

text \<open>
  A \<open>float64\<close> (and a C \<open>double\<close>) is its IEEE 754 bit pattern: sign in bit 63, exponent
  in bits 52 to 62, fraction in bits 0 to 51. The conversions \<open>C.double(x)\<close> and
  \<open>float64(c)\<close> keep the bits. Go's \<open>==\<close> on floats is the IEEE comparison: a NaN equals
  nothing, the two zeros equal each other, every other value equals only itself.
\<close>

type_synonym float64 = "64 word"

definition float64_isNaN :: "float64 \<Rightarrow> bool" where
  "float64_isNaN a = (0x7FF0000000000000 < (a AND 0x7FFFFFFFFFFFFFFF))"

definition float64_isZero :: "float64 \<Rightarrow> bool" where
  "float64_isZero a = ((a AND 0x7FFFFFFFFFFFFFFF) = 0)"

definition float64_eq :: "float64 \<Rightarrow> float64 \<Rightarrow> bool" where
  "float64_eq a b =
     (\<not> float64_isNaN a \<and> \<not> float64_isNaN b \<and> (a = b \<or> (float64_isZero a \<and> float64_isZero b)))"

text \<open>The literals \<open>0.0\<close> and \<open>1.0\<close>.\<close>

definition float64_0 :: float64 where
  "float64_0 = 0"

definition float64_1 :: float64 where
  "float64_1 = 0x3FF0000000000000"

text \<open>
  A pointer to an opaque C struct is \<open>None\<close> (NULL) or the address. A Go pointer to a struct
  is \<open>None\<close> (nil) or the struct it points to; no claim depends on two pointers sharing
  one struct, so the pointee is passed by value and a method that writes through its
  receiver returns the struct as it is afterwards.
\<close>

type_synonym handle = "nat option"

type_synonym 'a ptr = "'a option"

text \<open>
  \<open>C.CString\<close> copies the bytes of a Go string into a fresh buffer and ends it with a NUL
  byte; the foreign function is handed the buffer. \<open>C.GoString\<close> reads a buffer up to its
  first NUL byte, and gives the empty string for a NULL pointer. The C allocator is not
  part of the state: \<open>C.free\<close> of such a buffer leaves no trace in the model.
\<close>

definition C_CString :: "string \<Rightarrow> string" where
  "C_CString s = s @ [CHR 0x00]"

definition C_GoString :: "string option \<Rightarrow> string" where
  "C_GoString c = (case c of None \<Rightarrow> [] | Some buf \<Rightarrow> takeWhile (\<lambda>ch. ch \<noteq> CHR 0x00) buf)"

text \<open>
  A runtime panic is a value. \<open>C.int(v)\<close> keeps the low 32 bits of an integer and reads
  them as two's complement. \<open>C.GoBytes(p, n)\<close> panics for a negative \<open>n\<close> and otherwise
  copies the \<open>n\<close> bytes at offsets \<open>0..n-1\<close> from \<open>p\<close> into a new, non-nil slice; the
  memory behind a C pointer is the function from offsets to bytes.
\<close>

datatype panic = NilPointerDereference | GoBytesLengthOutOfRange

definition C_int :: "int \<Rightarrow> int" where
  "C_int v = sint (word_of_int v :: 32 word)"

definition C_GoBytes :: "(nat \<Rightarrow> 8 word) \<Rightarrow> int \<Rightarrow> panic + 8 word list" where
  "C_GoBytes mem n = (if n < 0 then Inl GoBytesLengthOutOfRange else Inr (map mem [0..<nat n]))"

text \<open>\<open>errors.New\<close> builds an error value from its text; a nil \<open>error\<close> is \<open>None\<close>.\<close>

datatype error = errorString string

definition errors_New :: "string \<Rightarrow> error" where
  "errors_New text = errorString text"

fun Error :: "error \<Rightarrow> string" where
  "Error (errorString text) = text"

section \<open>The foreign engine\<close>

text \<open>
  The functions of \<open>mapnik_c_api.h\<close> are not part of the package: they are a parameter,
  a table of functions over the engine's own state \<open>'w\<close>. Each takes the arguments the Go
  code passes and the state, and gives back what the C function returns and the state
  afterwards. The registration functions also give back what they leave in the slot
  behind their \<open>char**\<close> argument. The PNG encoder gives back the blob whose fields
  \<open>ptr\<close> and \<open>len\<close> the Go code reads: the memory behind \<open>ptr\<close> and the value of
  \<open>len\<close> in its own integer type. The status of a call is its value as an integer. A
  foreign call is taken to return.
\<close>

type_synonym mapnik_coord_t = "float64 \<times> float64"

record mapnik_image_blob_t =
  ptr :: "nat \<Rightarrow> 8 word"
  len :: int

record 'w engine =
  mapnik_version_string :: "'w \<Rightarrow> string option \<times> 'w"
  mapnik_register_datasources :: "string \<Rightarrow> string option \<Rightarrow> 'w \<Rightarrow> (int \<times> string option) \<times> 'w"
  mapnik_register_fonts :: "string \<Rightarrow> string option \<Rightarrow> 'w \<Rightarrow> (int \<times> string option) \<times> 'w"
  mapnik_projection_free :: "handle \<Rightarrow> 'w \<Rightarrow> 'w"
  mapnik_projection_forward :: "handle \<Rightarrow> mapnik_coord_t \<Rightarrow> 'w \<Rightarrow> mapnik_coord_t \<times> 'w"
  mapnik_map :: "32 word \<Rightarrow> 32 word \<Rightarrow> 'w \<Rightarrow> handle \<times> 'w"
  mapnik_map_last_error :: "handle \<Rightarrow> 'w \<Rightarrow> string option \<times> 'w"
  mapnik_map_load :: "handle \<Rightarrow> string \<Rightarrow> 'w \<Rightarrow> int \<times> 'w"
  mapnik_map_load_string :: "handle \<Rightarrow> string \<Rightarrow> 'w \<Rightarrow> int \<times> 'w"
  mapnik_map_resize :: "handle \<Rightarrow> 32 word \<Rightarrow> 32 word \<Rightarrow> 'w \<Rightarrow> 'w"
  mapnik_map_free :: "handle \<Rightarrow> 'w \<Rightarrow> 'w"
  mapnik_map_get_srs :: "handle \<Rightarrow> 'w \<Rightarrow> string option \<times> 'w"
  mapnik_map_set_srs :: "handle \<Rightarrow> string \<Rightarrow> 'w \<Rightarrow> 'w"
  mapnik_map_zoom_all :: "handle \<Rightarrow> 'w \<Rightarrow> int \<times> 'w"
  mapnik_bbox :: "float64 \<Rightarrow> float64 \<Rightarrow> float64 \<Rightarrow> float64 \<Rightarrow> 'w \<Rightarrow> handle \<times> 'w"
  mapnik_bbox_free :: "handle \<Rightarrow> 'w \<Rightarrow> 'w"
  mapnik_map_zoom_to_box :: "handle \<Rightarrow> handle \<Rightarrow> 'w \<Rightarrow> 'w"
  mapnik_map_render_to_file ::
    "handle \<Rightarrow> string \<Rightarrow> float64 \<Rightarrow> float64 \<Rightarrow> string \<Rightarrow> 'w \<Rightarrow> int \<times> 'w"
  mapnik_map_render_to_image :: "handle \<Rightarrow> float64 \<Rightarrow> float64 \<Rightarrow> 'w \<Rightarrow> handle \<times> 'w"
  mapnik_image_free :: "handle \<Rightarrow> 'w \<Rightarrow> 'w"
  mapnik_image_to_png_blob :: "handle \<Rightarrow> 'w \<Rightarrow> mapnik_image_blob_t \<times> 'w"
  mapnik_image_blob_free :: "mapnik_image_blob_t \<Rightarrow> 'w \<Rightarrow> 'w"
  mapnik_map_projection :: "handle \<Rightarrow> 'w \<Rightarrow> handle \<times> 'w"
  mapnik_map_set_buffer_size :: "handle \<Rightarrow> int \<Rightarrow> 'w \<Rightarrow> 'w"

section \<open>The package\<close>

record Coord =
  X :: float64
  Y :: float64

record Projection =
  p :: handle

record Map =
  m :: handle

record RenderOpts =
  Scale :: float64
  ScaleFactor :: float64
  Format :: string

definition Version :: "'w engine \<Rightarrow> 'w \<Rightarrow> string \<times> 'w" where
  "Version eng w = (let (v, w1) = mapnik_version_string eng w in (''Mapnik '' @ C_GoString v, w1))"

definition RegisterDatasources :: "'w engine \<Rightarrow> string \<Rightarrow> 'w \<Rightarrow> 'w" where
  "RegisterDatasources eng path w =
     (let cs = C_CString path;
          err = Some (C_CString path);
          (r, w1) = mapnik_register_datasources eng cs err w
      in w1)"

definition RegisterFonts :: "'w engine \<Rightarrow> string \<Rightarrow> 'w \<Rightarrow> 'w" where
  "RegisterFonts eng path w =
     (let cs = C_CString path;
          err = Some (C_CString path);
          (r, w1) = mapnik_register_fonts eng cs err w
      in w1)"

text \<open>
  The constants \<open>pluginPath\<close> and \<open>fontPath\<close> are declared in a file of the package that is
  not at hand; \<open>init\<close> takes them as parameters.
\<close>

definition init :: "'w engine \<Rightarrow> string \<Rightarrow> string \<Rightarrow> 'w \<Rightarrow> 'w" where
  "init eng pluginPath fontPath w =
     (let w1 = RegisterDatasources eng pluginPath w;
          w2 = RegisterFonts eng fontPath w1
      in w2)"

definition Projection_Free ::
  "'w engine \<Rightarrow> Projection ptr \<Rightarrow> 'w \<Rightarrow> (panic + Projection) \<times> 'w" where
  "Projection_Free eng recv w =
     (case recv of
        None \<Rightarrow> (Inl NilPointerDereference, w)
      | Some pv \<Rightarrow>
          (let w1 = mapnik_projection_free eng (p pv) w
           in (Inr (pv\<lparr>p := None\<rparr>), w1)))"

definition Projection_Forward :: "'w engine \<Rightarrow> Projection \<Rightarrow> Coord \<Rightarrow> 'w \<Rightarrow> Coord \<times> 'w" where
  "Projection_Forward eng pv coord w =
     (let c = (X coord, Y coord);
          (c1, w1) = mapnik_projection_forward eng (p pv) c w
      in (\<lparr>X = fst c1, Y = snd c1\<rparr>, w1))"

definition NewMap :: "'w engine \<Rightarrow> 32 word \<Rightarrow> 32 word \<Rightarrow> 'w \<Rightarrow> Map ptr \<times> 'w" where
  "NewMap eng width height w =
     (let (h, w1) = mapnik_map eng width height w in (Some \<lparr>m = h\<rparr>, w1))"

definition Map_lastError :: "'w engine \<Rightarrow> Map ptr \<Rightarrow> 'w \<Rightarrow> (panic + error) \<times> 'w" where
  "Map_lastError eng recv w =
     (case recv of
        None \<Rightarrow> (Inl NilPointerDereference, w)
      | Some mv \<Rightarrow>
          (let (e, w1) = mapnik_map_last_error eng (m mv) w
           in (Inr (errors_New (''mapnik: '' @ C_GoString e)), w1)))"

text \<open>
  A fallible method returns \<open>m.lastError()\<close> as its error: a panic there is the method's
  panic, an error value is returned as a non-nil \<open>error\<close>.
\<close>

definition return_lastError :: "(panic + error) \<times> 'w \<Rightarrow> (panic + error option) \<times> 'w" where
  "return_lastError r =
     (case r of (Inl pn, w1) \<Rightarrow> (Inl pn, w1) | (Inr e, w1) \<Rightarrow> (Inr (Some e), w1))"

definition Map_Load :: "'w engine \<Rightarrow> Map ptr \<Rightarrow> string \<Rightarrow> 'w \<Rightarrow> (panic + error option) \<times> 'w" where
  "Map_Load eng recv stylesheetFile w =
     (let cs = C_CString stylesheetFile in
      case recv of
        None \<Rightarrow> (Inl NilPointerDereference, w)
      | Some mv \<Rightarrow>
          (let (r, w1) = mapnik_map_load eng (m mv) cs w
           in if r \<noteq> 0 then return_lastError (Map_lastError eng recv w1) else (Inr None, w1)))"

definition Map_LoadString ::
  "'w engine \<Rightarrow> Map ptr \<Rightarrow> string \<Rightarrow> 'w \<Rightarrow> (panic + error option) \<times> 'w" where
  "Map_LoadString eng recv stylesheet w =
     (let cs = C_CString stylesheet in
      case recv of
        None \<Rightarrow> (Inl NilPointerDereference, w)
      | Some mv \<Rightarrow>
          (let (r, w1) = mapnik_map_load_string eng (m mv) cs w
           in if r \<noteq> 0 then return_lastError (Map_lastError eng recv w1) else (Inr None, w1)))"

definition Map_Resize ::
  "'w engine \<Rightarrow> Map ptr \<Rightarrow> 32 word \<Rightarrow> 32 word \<Rightarrow> 'w \<Rightarrow> (panic + unit) \<times> 'w" where
  "Map_Resize eng recv width height w =
     (case recv of
        None \<Rightarrow> (Inl NilPointerDereference, w)
      | Some mv \<Rightarrow> (Inr (), mapnik_map_resize eng (m mv) width height w))"

definition Map_Free :: "'w engine \<Rightarrow> Map ptr \<Rightarrow> 'w \<Rightarrow> (panic + Map) \<times> 'w" where
  "Map_Free eng recv w =
     (case recv of
        None \<Rightarrow> (Inl NilPointerDereference, w)
      | Some mv \<Rightarrow>
          (let w1 = mapnik_map_free eng (m mv) w
           in (Inr (mv\<lparr>m := None\<rparr>), w1)))"

definition Map_SRS :: "'w engine \<Rightarrow> Map ptr \<Rightarrow> 'w \<Rightarrow> (panic + string) \<times> 'w" where
  "Map_SRS eng recv w =
     (case recv of
        None \<Rightarrow> (Inl NilPointerDereference, w)
      | Some mv \<Rightarrow>
          (let (c, w1) = mapnik_map_get_srs eng (m mv) w in (Inr (C_GoString c), w1)))"

definition Map_SetSRS :: "'w engine \<Rightarrow> Map ptr \<Rightarrow> string \<Rightarrow> 'w \<Rightarrow> (panic + unit) \<times> 'w" where
  "Map_SetSRS eng recv srs w =
     (let cs = C_CString srs in
      case recv of
        None \<Rightarrow> (Inl NilPointerDereference, w)
      | Some mv \<Rightarrow> (Inr (), mapnik_map_set_srs eng (m mv) cs w))"

definition Map_ZoomAll :: "'w engine \<Rightarrow> Map ptr \<Rightarrow> 'w \<Rightarrow> (panic + error option) \<times> 'w" where
  "Map_ZoomAll eng recv w =
     (case recv of
        None \<Rightarrow> (Inl NilPointerDereference, w)
      | Some mv \<Rightarrow>
          (let (r, w1) = mapnik_map_zoom_all eng (m mv) w
           in if r \<noteq> 0 then return_lastError (Map_lastError eng recv w1) else (Inr None, w1)))"

text \<open>
  \<open>ZoomToMinMax\<close> builds the box before it reads \<open>m.m\<close>, and the deferred
  \<open>mapnik_bbox_free\<close> runs also when that read panics.
\<close>

definition Map_ZoomToMinMax ::
  "'w engine \<Rightarrow> Map ptr \<Rightarrow> float64 \<Rightarrow> float64 \<Rightarrow> float64 \<Rightarrow> float64 \<Rightarrow> 'w \<Rightarrow> (panic + unit) \<times> 'w"
  where
  "Map_ZoomToMinMax eng recv minx miny maxx maxy w =
     (let (bbox, w1) = mapnik_bbox eng minx miny maxx maxy w in
      case recv of
        None \<Rightarrow> (Inl NilPointerDereference, mapnik_bbox_free eng bbox w1)
      | Some mv \<Rightarrow>
          (let w2 = mapnik_map_zoom_to_box eng (m mv) bbox w1
           in (Inr (), mapnik_bbox_free eng bbox w2)))"

definition Map_RenderToFile ::
  "'w engine \<Rightarrow> Map ptr \<Rightarrow> string \<Rightarrow> RenderOpts \<Rightarrow> 'w \<Rightarrow> (panic + error option) \<times> 'w" where
  "Map_RenderToFile eng recv path opts w =
     (let scaleFactor = ScaleFactor opts;
          scaleFactor = (if float64_eq scaleFactor float64_0 then float64_1 else scaleFactor);
          format = (if Format opts \<noteq> '''' then C_CString (Format opts) else C_CString ''png8'');
          cs = C_CString path
      in case recv of
           None \<Rightarrow> (Inl NilPointerDereference, w)
         | Some mv \<Rightarrow>
             (let (r, w1) = mapnik_map_render_to_file eng (m mv) cs (Scale opts) scaleFactor format w
              in if r \<noteq> 0 then return_lastError (Map_lastError eng recv w1) else (Inr None, w1)))"

text \<open>
  In \<open>RenderToMemoryPng\<close> the bytes are copied before the deferred calls run; these run
  last in, first out, also when \<open>C.GoBytes\<close> panics. A nil byte slice is \<open>None\<close>.
\<close>

definition Map_RenderToMemoryPng ::
  "'w engine \<Rightarrow> Map ptr \<Rightarrow> RenderOpts \<Rightarrow> 'w \<Rightarrow> (panic + 8 word list option \<times> error option) \<times> 'w"
  where
  "Map_RenderToMemoryPng eng recv opts w =
     (let scaleFactor = ScaleFactor opts;
          scaleFactor = (if float64_eq scaleFactor float64_0 then float64_1 else scaleFactor)
      in case recv of
           None \<Rightarrow> (Inl NilPointerDereference, w)
         | Some mv \<Rightarrow>
             (let (i, w1) = mapnik_map_render_to_image eng (m mv) (Scale opts) scaleFactor w
              in if i = None then
                   (case Map_lastError eng recv w1 of
                      (Inl pn, w2) \<Rightarrow> (Inl pn, w2)
                    | (Inr e, w2) \<Rightarrow> (Inr (None, Some e), w2))
                 else
                   (let (b, w2) = mapnik_image_to_png_blob eng i w1;
                        bytes = C_GoBytes (ptr b) (C_int (len b));
                        w3 = mapnik_image_blob_free eng b w2;
                        w4 = mapnik_image_free eng i w3
                    in case bytes of
                         Inl pn \<Rightarrow> (Inl pn, w4)
                       | Inr bs \<Rightarrow> (Inr (Some bs, None), w4))))"

definition Map_Projection :: "'w engine \<Rightarrow> Map ptr \<Rightarrow> 'w \<Rightarrow> (panic + Projection) \<times> 'w" where
  "Map_Projection eng recv w =
     (let pv = \<lparr>p = None\<rparr> in
      case recv of
        None \<Rightarrow> (Inl NilPointerDereference, w)
      | Some mv \<Rightarrow>
          (let (h, w1) = mapnik_map_projection eng (m mv) w in (Inr (pv\<lparr>p := h\<rparr>), w1)))"

text \<open>A Go \<open>int\<close> is its value; \<open>C.int(s)\<close> keeps its low 32 bits.\<close>

definition Map_SetBufferSize :: "'w engine \<Rightarrow> Map ptr \<Rightarrow> int \<Rightarrow> 'w \<Rightarrow> (panic + unit) \<times> 'w" where
  "Map_SetBufferSize eng recv s w =
     (case recv of
        None \<Rightarrow> (Inl NilPointerDereference, w)
      | Some mv \<Rightarrow> (Inr (), mapnik_map_set_buffer_size eng (m mv) (C_int s) w))"

section \<open>Observing the foreign calls\<close>

text \<open>
  To say which foreign calls a function makes, with which arguments and in which order,
  an engine is wrapped so that it records every call it receives, in order of arrival,
  next to its own state. The wrapped engine answers as the engine it wraps.
\<close>

datatype call =
    Call_version_string
  | Call_register_datasources string "string option"
  | Call_register_fonts string "string option"
  | Call_projection_free handle
  | Call_projection_forward handle mapnik_coord_t
  | Call_map "32 word" "32 word"
  | Call_map_last_error handle
  | Call_map_load handle string
  | Call_map_load_string handle string
  | Call_map_resize handle "32 word" "32 word"
  | Call_map_free handle
  | Call_map_get_srs handle
  | Call_map_set_srs handle string
  | Call_map_zoom_all handle
  | Call_bbox float64 float64 float64 float64
  | Call_bbox_free handle
  | Call_map_zoom_to_box handle handle
  | Call_map_render_to_file handle string float64 float64 string
  | Call_map_render_to_image handle float64 float64
  | Call_image_free handle
  | Call_image_to_png_blob handle
  | Call_image_blob_free mapnik_image_blob_t
  | Call_map_projection handle
  | Call_map_set_buffer_size handle int

definition record_call :: "call \<Rightarrow> ('w \<Rightarrow> 'a \<times> 'w) \<Rightarrow> 'w \<times> call list \<Rightarrow> 'a \<times> 'w \<times> call list" where
  "record_call c f = (\<lambda>(w, log). let (r, w1) = f w in (r, (w1, log @ [c])))"

definition record_proc :: "call \<Rightarrow> ('w \<Rightarrow> 'w) \<Rightarrow> 'w \<times> call list \<Rightarrow> 'w \<times> call list" where
  "record_proc c f = (\<lambda>(w, log). (f w, log @ [c]))"

definition traced :: "'w engine \<Rightarrow> ('w \<times> call list) engine" where
  "traced eng = \<lparr>
     mapnik_version_string = record_call Call_version_string (mapnik_version_string eng),
     mapnik_register_datasources = (\<lambda>cs err.
       record_call (Call_register_datasources cs err) (mapnik_register_datasources eng cs err)),
     mapnik_register_fonts = (\<lambda>cs err.
       record_call (Call_register_fonts cs err) (mapnik_register_fonts eng cs err)),
     mapnik_projection_free = (\<lambda>h.
       record_proc (Call_projection_free h) (mapnik_projection_free eng h)),
     mapnik_projection_forward = (\<lambda>h c.
       record_call (Call_projection_forward h c) (mapnik_projection_forward eng h c)),
     mapnik_map = (\<lambda>width height.
       record_call (Call_map width height) (mapnik_map eng width height)),
     mapnik_map_last_error = (\<lambda>h.
       record_call (Call_map_last_error h) (mapnik_map_last_error eng h)),
     mapnik_map_load = (\<lambda>h cs.
       record_call (Call_map_load h cs) (mapnik_map_load eng h cs)),
     mapnik_map_load_string = (\<lambda>h cs.
       record_call (Call_map_load_string h cs) (mapnik_map_load_string eng h cs)),
     mapnik_map_resize = (\<lambda>h width height.
       record_proc (Call_map_resize h width height) (mapnik_map_resize eng h width height)),
     mapnik_map_free = (\<lambda>h.
       record_proc (Call_map_free h) (mapnik_map_free eng h)),
     mapnik_map_get_srs = (\<lambda>h.
       record_call (Call_map_get_srs h) (mapnik_map_get_srs eng h)),
     mapnik_map_set_srs = (\<lambda>h cs.
       record_proc (Call_map_set_srs h cs) (mapnik_map_set_srs eng h cs)),
     mapnik_map_zoom_all = (\<lambda>h.
       record_call (Call_map_zoom_all h) (mapnik_map_zoom_all eng h)),
     mapnik_bbox = (\<lambda>minx miny maxx maxy.
       record_call (Call_bbox minx miny maxx maxy) (mapnik_bbox eng minx miny maxx maxy)),
     mapnik_bbox_free = (\<lambda>b.
       record_proc (Call_bbox_free b) (mapnik_bbox_free eng b)),
     mapnik_map_zoom_to_box = (\<lambda>h b.
       record_proc (Call_map_zoom_to_box h b) (mapnik_map_zoom_to_box eng h b)),
     mapnik_map_render_to_file = (\<lambda>h cs scale scaleFactor format.
       record_call (Call_map_render_to_file h cs scale scaleFactor format)
         (mapnik_map_render_to_file eng h cs scale scaleFactor format)),
     mapnik_map_render_to_image = (\<lambda>h scale scaleFactor.
       record_call (Call_map_render_to_image h scale scaleFactor)
         (mapnik_map_render_to_image eng h scale scaleFactor)),
     mapnik_image_free = (\<lambda>i.
       record_proc (Call_image_free i) (mapnik_image_free eng i)),
     mapnik_image_to_png_blob = (\<lambda>i.
       record_call (Call_image_to_png_blob i) (mapnik_image_to_png_blob eng i)),
     mapnik_image_blob_free = (\<lambda>b.
       record_proc (Call_image_blob_free b) (mapnik_image_blob_free eng b)),
     mapnik_map_projection = (\<lambda>h.
       record_call (Call_map_projection h) (mapnik_map_projection eng h)),
     mapnik_map_set_buffer_size = (\<lambda>h s.
       record_proc (Call_map_set_buffer_size h s) (mapnik_map_set_buffer_size eng h s))
   \<rparr>"

section \<open>An engine to run the package against\<close>

text \<open>
  A small engine for concrete runs. Its state is the text of the last error (NULL before
  the first failure). It loads only the file \<open>ok.xml\<close> and the stylesheet \<open><Map/>\<close>,
  renders only for the map handle it gave out, refuses the output format \<open>bmp\<close>, and
  reports a failure of font registration through its status and its slot. Its projection
  swaps the two coordinates, and its PNG blob holds the four bytes of the PNG signature.
\<close>

definition png_magic :: "8 word list" where
  "png_magic = [0x89, 0x50, 0x4E, 0x47]"

definition demo_blob :: mapnik_image_blob_t where
  "demo_blob = \<lparr>ptr = (\<lambda>k. if k < 4 then png_magic ! k else 0), len = 4\<rparr>"

definition demo_engine :: "string option engine" where
  "demo_engine = \<lparr>
     mapnik_version_string = (\<lambda>w. (Some (C_CString ''3.0.9''), w)),
     mapnik_register_datasources = (\<lambda>cs err w. ((0, err), w)),
     mapnik_register_fonts = (\<lambda>cs err w. ((- 1, Some (C_CString ''no fonts found'')), w)),
     mapnik_projection_free = (\<lambda>h w. w),
     mapnik_projection_forward = (\<lambda>h c w. ((snd c, fst c), w)),
     mapnik_map = (\<lambda>width height w. (Some 1, w)),
     mapnik_map_last_error = (\<lambda>h w. (w, w)),
     mapnik_map_load = (\<lambda>h cs w.
       if cs = C_CString ''ok.xml'' then (0, w) else (- 1, Some (C_CString ''file not found''))),
     mapnik_map_load_string = (\<lambda>h cs w.
       if cs = C_CString ''<Map/>'' then (0, w) else (- 1, Some (C_CString ''parse error''))),
     mapnik_map_resize = (\<lambda>h width height w. w),
     mapnik_map_free = (\<lambda>h w. w),
     mapnik_map_get_srs = (\<lambda>h w. (Some (C_CString ''+proj=longlat''), w)),
     mapnik_map_set_srs = (\<lambda>h cs w. w),
     mapnik_map_zoom_all = (\<lambda>h w.
       if h = Some 1 then (0, w) else (- 1, Some (C_CString ''no extent''))),
     mapnik_bbox = (\<lambda>minx miny maxx maxy w. (Some 3, w)),
     mapnik_bbox_free = (\<lambda>b w. w),
     mapnik_map_zoom_to_box = (\<lambda>h b w. w),
     mapnik_map_render_to_file = (\<lambda>h cs scale scaleFactor format w.
       if format = C_CString ''bmp'' then (- 1, Some (C_CString ''unknown format'')) else (0, w)),
     mapnik_map_render_to_image = (\<lambda>h scale scaleFactor w.
       if h = Some 1 then (Some 2, w) else (None, Some (C_CString ''no map''))),
     mapnik_image_free = (\<lambda>i w. w),
     mapnik_image_to_png_blob = (\<lambda>i w. (demo_blob, w)),
     mapnik_image_blob_free = (\<lambda>b w. w),
     mapnik_map_projection = (\<lambda>h w. (Some 4, w)),
     mapnik_map_set_buffer_size = (\<lambda>h s w. w)
   \<rparr>"

text \<open>The same engine, except that font registration reports success.\<close>

definition quiet_engine :: "string option engine" where
  "quiet_engine = demo_engine\<lparr>mapnik_register_fonts := (\<lambda>cs err w. ((0, err), w))\<rparr>"

section \<open>A process that uses the package\<close>

text \<open>
  Go runs the \<open>init\<close> function of a package once, when the program starts, before any
  code outside the package can call into it, and \<open>init\<close> cannot be called by name. A
  process is therefore \<open>init\<close> followed by the calls the client makes to the exported
  functions and methods, in the order it makes them; a call that panics ends the process.
  The values a call returns to the client play no part in what the engine receives next,
  other than through the arguments of the client's later calls.
\<close>

datatype api_call =
    Do_Version
  | Do_RegisterDatasources string
  | Do_RegisterFonts string
  | Do_Projection_Free "Projection ptr"
  | Do_Projection_Forward Projection Coord
  | Do_NewMap "32 word" "32 word"
  | Do_Load "Map ptr" string
  | Do_LoadString "Map ptr" string
  | Do_Resize "Map ptr" "32 word" "32 word"
  | Do_Free "Map ptr"
  | Do_SRS "Map ptr"
  | Do_SetSRS "Map ptr" string
  | Do_ZoomAll "Map ptr"
  | Do_ZoomToMinMax "Map ptr" float64 float64 float64 float64
  | Do_RenderToFile "Map ptr" string RenderOpts
  | Do_RenderToMemoryPng "Map ptr" RenderOpts
  | Do_Projection "Map ptr"
  | Do_SetBufferSize "Map ptr" int

definition returned :: "'a \<times> 'w \<Rightarrow> bool \<times> 'w" where
  "returned r = (False, snd r)"

definition finished :: "(panic + 'a) \<times> 'w \<Rightarrow> bool \<times> 'w" where
  "finished r = (case r of (Inl pn, w1) \<Rightarrow> (True, w1) | (Inr v, w1) \<Rightarrow> (False, w1))"

text \<open>One call of the client: whether it panicked, and the engine's state afterwards.\<close>

fun exec_call :: "'w engine \<Rightarrow> api_call \<Rightarrow> 'w \<Rightarrow> bool \<times> 'w" where
  "exec_call eng Do_Version w = returned (Version eng w)"
| "exec_call eng (Do_RegisterDatasources path) w = (False, RegisterDatasources eng path w)"
| "exec_call eng (Do_RegisterFonts path) w = (False, RegisterFonts eng path w)"
| "exec_call eng (Do_Projection_Free recv) w = finished (Projection_Free eng recv w)"
| "exec_call eng (Do_Projection_Forward pv coord) w = returned (Projection_Forward eng pv coord w)"
| "exec_call eng (Do_NewMap width height) w = returned (NewMap eng width height w)"
| "exec_call eng (Do_Load recv stylesheetFile) w = finished (Map_Load eng recv stylesheetFile w)"
| "exec_call eng (Do_LoadString recv stylesheet) w = finished (Map_LoadString eng recv stylesheet w)"
| "exec_call eng (Do_Resize recv width height) w = finished (Map_Resize eng recv width height w)"
| "exec_call eng (Do_Free recv) w = finished (Map_Free eng recv w)"
| "exec_call eng (Do_SRS recv) w = finished (Map_SRS eng recv w)"
| "exec_call eng (Do_SetSRS recv srs) w = finished (Map_SetSRS eng recv srs w)"
| "exec_call eng (Do_ZoomAll recv) w = finished (Map_ZoomAll eng recv w)"
| "exec_call eng (Do_ZoomToMinMax recv minx miny maxx maxy) w =
     finished (Map_ZoomToMinMax eng recv minx miny maxx maxy w)"
| "exec_call eng (Do_RenderToFile recv path opts) w = finished (Map_RenderToFile eng recv path opts w)"
| "exec_call eng (Do_RenderToMemoryPng recv opts) w = finished (Map_RenderToMemoryPng eng recv opts w)"
| "exec_call eng (Do_Projection recv) w = finished (Map_Projection eng recv w)"
| "exec_call eng (Do_SetBufferSize recv s) w = finished (Map_SetBufferSize eng recv s w)"

fun run_calls :: "'w engine \<Rightarrow> api_call list \<Rightarrow> 'w \<Rightarrow> 'w" where
  "run_calls eng [] w = w"
| "run_calls eng (c # cs) w =
     (case exec_call eng c w of
        (True, w1) \<Rightarrow> w1
      | (False, w1) \<Rightarrow> run_calls eng cs w1)"

definition run_process :: "'w engine \<Rightarrow> string \<Rightarrow> string \<Rightarrow> api_call list \<Rightarrow> 'w \<Rightarrow> 'w" where
  "run_process eng pluginPath fontPath cs w = run_calls eng cs (init eng pluginPath fontPath w)"

text \<open>The foreign calls that register a search path, and those that hand out a handle.\<close>

fun is_registration :: "call \<Rightarrow> bool" where
  "is_registration (Call_register_datasources cs err) = True"
| "is_registration (Call_register_fonts cs err) = True"
| "is_registration c = False"

fun creates_handle :: "call \<Rightarrow> bool" where
  "creates_handle (Call_map width height) = True"
| "creates_handle (Call_bbox minx miny maxx maxy) = True"
| "creates_handle (Call_map_render_to_image h scale scaleFactor) = True"
| "creates_handle (Call_map_projection h) = True"
| "creates_handle c = False"

fun registers_path :: "api_call \<Rightarrow> bool" where
  "registers_path (Do_RegisterDatasources path) = True"
| "registers_path (Do_RegisterFonts path) = True"
| "registers_path c = False"

section \<open>The error protocol of the fallible methods\<close>

text \<open>
  \<open>wraps_last_error eng h w1 res\<close>: the outcome \<open>res\<close> is a non-nil error whose text is
  \<open>mapnik: \<close> followed by the last-error string the engine gives for handle \<open>h\<close> in state
  \<open>w1\<close>, and that text is not empty. \<open>follows_status eng h foreign res\<close>: for the status
  and state \<open>foreign\<close> that a foreign call returned, \<open>res\<close> is nil for status zero and
  wraps the last error otherwise.
\<close>

definition wraps_last_error ::
  "'w engine \<Rightarrow> handle \<Rightarrow> 'w \<Rightarrow> (panic + error option) \<times> 'w \<Rightarrow> bool" where
  "wraps_last_error eng h w1 res =
     (case mapnik_map_last_error eng h w1 of
        (c, w2) \<Rightarrow>
          res = (Inr (Some (errors_New (''mapnik: '' @ C_GoString c))), w2)
          \<and> Error (errors_New (''mapnik: '' @ C_GoString c)) \<noteq> [])"

definition follows_status ::
  "'w engine \<Rightarrow> handle \<Rightarrow> int \<times> 'w \<Rightarrow> (panic + error option) \<times> 'w \<Rightarrow> bool" where
  "follows_status eng h foreign res =
     (case foreign of
        (r, w1) \<Rightarrow> if r = 0 then res = (Inr None, w1) else wraps_last_error eng h w1 res)"

section \<open>What the recording engine and the small engine compute\<close>

lemma traced_simps:
  "mapnik_version_string (traced eng) =
     record_call Call_version_string (mapnik_version_string eng)"
  "mapnik_register_datasources (traced eng) cs err =
     record_call (Call_register_datasources cs err) (mapnik_register_datasources eng cs err)"
  "mapnik_register_fonts (traced eng) cs err =
     record_call (Call_register_fonts cs err) (mapnik_register_fonts eng cs err)"
  "mapnik_projection_free (traced eng) h =
     record_proc (Call_projection_free h) (mapnik_projection_free eng h)"
  "mapnik_projection_forward (traced eng) h c =
     record_call (Call_projection_forward h c) (mapnik_projection_forward eng h c)"
  "mapnik_map (traced eng) width height =
     record_call (Call_map width height) (mapnik_map eng width height)"
  "mapnik_map_last_error (traced eng) h =
     record_call (Call_map_last_error h) (mapnik_map_last_error eng h)"
  "mapnik_map_load (traced eng) h cs = record_call (Call_map_load h cs) (mapnik_map_load eng h cs)"
  "mapnik_map_load_string (traced eng) h cs =
     record_call (Call_map_load_string h cs) (mapnik_map_load_string eng h cs)"
  "mapnik_map_resize (traced eng) h width height =
     record_proc (Call_map_resize h width height) (mapnik_map_resize eng h width height)"
  "mapnik_map_free (traced eng) h = record_proc (Call_map_free h) (mapnik_map_free eng h)"
  "mapnik_map_get_srs (traced eng) h =
     record_call (Call_map_get_srs h) (mapnik_map_get_srs eng h)"
  "mapnik_map_set_srs (traced eng) h cs =
     record_proc (Call_map_set_srs h cs) (mapnik_map_set_srs eng h cs)"
  "mapnik_map_zoom_all (traced eng) h =
     record_call (Call_map_zoom_all h) (mapnik_map_zoom_all eng h)"
  "mapnik_bbox (traced eng) minx miny maxx maxy =
     record_call (Call_bbox minx miny maxx maxy) (mapnik_bbox eng minx miny maxx maxy)"
  "mapnik_bbox_free (traced eng) bb = record_proc (Call_bbox_free bb) (mapnik_bbox_free eng bb)"
  "mapnik_map_zoom_to_box (traced eng) h bb =
     record_proc (Call_map_zoom_to_box h bb) (mapnik_map_zoom_to_box eng h bb)"
  "mapnik_map_render_to_file (traced eng) h cs scale scaleFactor format =
     record_call (Call_map_render_to_file h cs scale scaleFactor format)
       (mapnik_map_render_to_file eng h cs scale scaleFactor format)"
  "mapnik_map_render_to_image (traced eng) h scale scaleFactor =
     record_call (Call_map_render_to_image h scale scaleFactor)
       (mapnik_map_render_to_image eng h scale scaleFactor)"
  "mapnik_image_free (traced eng) i = record_proc (Call_image_free i) (mapnik_image_free eng i)"
  "mapnik_image_to_png_blob (traced eng) i =
     record_call (Call_image_to_png_blob i) (mapnik_image_to_png_blob eng i)"
  "mapnik_image_blob_free (traced eng) b =
     record_proc (Call_image_blob_free b) (mapnik_image_blob_free eng b)"
  "mapnik_map_projection (traced eng) h =
     record_call (Call_map_projection h) (mapnik_map_projection eng h)"
  "mapnik_map_set_buffer_size (traced eng) h s =
     record_proc (Call_map_set_buffer_size h s) (mapnik_map_set_buffer_size eng h s)"
  by (simp_all add: traced_def)

lemma record_call_apply:
  "record_call c f (w, log) = (fst (f w), (snd (f w), log @ [c]))"
  by (simp add: record_call_def split: prod.splits)

lemma record_proc_apply:
  "record_proc c f (w, log) = (f w, log @ [c])"
  by (simp add: record_proc_def)

lemmas package_defs =
  Version_def RegisterDatasources_def RegisterFonts_def Projection_Free_def
  Projection_Forward_def NewMap_def Map_lastError_def return_lastError_def Map_Load_def
  Map_LoadString_def Map_Resize_def Map_Free_def Map_SRS_def Map_SetSRS_def Map_ZoomAll_def
  Map_ZoomToMinMax_def Map_RenderToFile_def Map_RenderToMemoryPng_def Map_Projection_def
  Map_SetBufferSize_def

text \<open>
  The recording engine answers as the engine it wraps: a function of the package, a call of
  the client and a whole run return the same and leave the same engine state on both.
\<close>

lemma traced_answers:
  "fst (RegisterDatasources (traced eng) path (w, log)) = RegisterDatasources eng path w"
  "fst (RegisterFonts (traced eng) path (w, log)) = RegisterFonts eng path w"
  "fst (Projection_Forward (traced eng) pv coord (w, log)) = fst (Projection_Forward eng pv coord w)"
  "fst (snd (Projection_Forward (traced eng) pv coord (w, log)))
     = snd (Projection_Forward eng pv coord w)"
  "fst (NewMap (traced eng) width height (w, log)) = fst (NewMap eng width height w)"
  "fst (snd (NewMap (traced eng) width height (w, log))) = snd (NewMap eng width height w)"
  "fst (Map_Free (traced eng) recv (w, log)) = fst (Map_Free eng recv w)"
  "fst (snd (Map_Free (traced eng) recv (w, log))) = snd (Map_Free eng recv w)"
  "fst (Projection_Free (traced eng) precv (w, log)) = fst (Projection_Free eng precv w)"
  "fst (snd (Projection_Free (traced eng) precv (w, log))) = snd (Projection_Free eng precv w)"
  "fst (Map_RenderToFile (traced eng) recv fpath opts (w, log))
     = fst (Map_RenderToFile eng recv fpath opts w)"
  "fst (snd (Map_RenderToFile (traced eng) recv fpath opts (w, log)))
     = snd (Map_RenderToFile eng recv fpath opts w)"
  "fst (Map_RenderToMemoryPng (traced eng) recv opts (w, log))
     = fst (Map_RenderToMemoryPng eng recv opts w)"
  "fst (snd (Map_RenderToMemoryPng (traced eng) recv opts (w, log)))
     = snd (Map_RenderToMemoryPng eng recv opts w)"
  by (simp_all add: traced_simps record_call_apply record_proc_apply package_defs Let_def
      case_prod_beta split: option.splits sum.splits)

lemma exec_call_answers:
  "fst (exec_call (traced eng) c (w, log)) = fst (exec_call eng c w)
   \<and> fst (snd (exec_call (traced eng) c (w, log))) = snd (exec_call eng c w)"
  by (cases c)
     (simp_all add: traced_simps record_call_apply record_proc_apply returned_def finished_def
        package_defs Let_def case_prod_beta split: option.splits sum.splits)

lemma run_calls_answers:
  "fst (run_calls (traced eng) cs (w, log)) = run_calls eng cs w"
proof (induction cs arbitrary: w log)
  case Nil
  show ?case by simp
next
  case (Cons c cs)
  obtain b w1 l1 where e: "exec_call (traced eng) c (w, log) = (b, (w1, l1))"
    by (metis prod.exhaust)
  with exec_call_answers [of eng c w log] have "exec_call eng c w = (b, w1)"
    by (simp add: prod_eq_iff)
  with e Cons.IH [of w1 l1] show ?case by (cases b) simp_all
qed

lemma demo_engine_simps:
  "mapnik_register_datasources demo_engine cs err w = ((0, err), w)"
  "mapnik_register_fonts demo_engine cs err w = ((- 1, Some (C_CString ''no fonts found'')), w)"
  "mapnik_projection_free demo_engine h w = w"
  "mapnik_projection_forward demo_engine h c w = ((snd c, fst c), w)"
  "mapnik_map demo_engine width height w = (Some 1, w)"
  "mapnik_map_last_error demo_engine h w = (w, w)"
  "mapnik_map_load demo_engine h cs w =
     (if cs = C_CString ''ok.xml'' then (0, w) else (- 1, Some (C_CString ''file not found'')))"
  "mapnik_map_load_string demo_engine h cs w =
     (if cs = C_CString ''<Map/>'' then (0, w) else (- 1, Some (C_CString ''parse error'')))"
  "mapnik_map_free demo_engine h w = w"
  "mapnik_map_zoom_all demo_engine h w =
     (if h = Some 1 then (0, w) else (- 1, Some (C_CString ''no extent'')))"
  "mapnik_map_render_to_file demo_engine h cs scale scaleFactor format w =
     (if format = C_CString ''bmp'' then (- 1, Some (C_CString ''unknown format'')) else (0, w))"
  "mapnik_map_render_to_image demo_engine h scale scaleFactor w =
     (if h = Some 1 then (Some 2, w) else (None, Some (C_CString ''no map'')))"
  "mapnik_image_free demo_engine i w = w"
  "mapnik_image_to_png_blob demo_engine i w = (demo_blob, w)"
  "mapnik_image_blob_free demo_engine b w = w"
  by (simp_all add: demo_engine_def)

lemma quiet_engine_simps:
  "mapnik_register_fonts quiet_engine cs err w = ((0, err), w)"
  by (simp add: quiet_engine_def)

text \<open>
  Positive zero, negative zero, minus two and a quiet NaN, compared with \<open>0.0\<close>.
\<close>

lemma float64_simps:
  "float64_eq 0 float64_0"
  "float64_eq 0x8000000000000000 float64_0"
  "\<not> float64_eq 0xC000000000000000 float64_0"
  "\<not> float64_eq 0x7FF8000000000000 float64_0"
  by (simp_all add: float64_eq_def float64_isNaN_def float64_isZero_def float64_0_def)

lemma demo_blob_bytes:
  "C_int (len demo_blob) = 4"
  "map (ptr demo_blob) [0..<4] = png_magic"
  by (simp_all add: demo_blob_def C_int_def png_magic_def upt_rec)

section \<open>Failure reporting\<close>

lemma follows_statusI:
  "res = (if fst foreign \<noteq> 0
          then return_lastError (Map_lastError eng (Some \<lparr>m = h\<rparr>) (snd foreign))
          else (Inr None, snd foreign)) \<Longrightarrow> follows_status eng h foreign res"
  by (cases foreign)
     (simp add: follows_status_def wraps_last_error_def return_lastError_def Map_lastError_def
        errors_New_def split: prod.splits)

text \<open>
  C1. Each of \<open>Load\<close>, \<open>LoadString\<close>, \<open>ZoomAll\<close> and \<open>RenderToFile\<close>, called on a map,
  returns nil when the status of its foreign call is zero. When the status is not zero it
  returns a non-nil error whose text is \<open>mapnik: \<close> followed by the last-error string of
  that map's context, read after the failed call; the text is never empty.
\<close>

theorem fallible_operations_error_protocol:
  "follows_status eng (m mv) (mapnik_map_load eng (m mv) (C_CString stylesheetFile) w)
     (Map_Load eng (Some mv) stylesheetFile w)
   \<and> follows_status eng (m mv) (mapnik_map_load_string eng (m mv) (C_CString stylesheet) w)
     (Map_LoadString eng (Some mv) stylesheet w)
   \<and> follows_status eng (m mv) (mapnik_map_zoom_all eng (m mv) w)
     (Map_ZoomAll eng (Some mv) w)
   \<and> follows_status eng (m mv)
     (mapnik_map_render_to_file eng (m mv) (C_CString path) (Scale opts)
        (if float64_eq (ScaleFactor opts) float64_0 then float64_1 else ScaleFactor opts)
        (C_CString (if Format opts = [] then ''png8'' else Format opts)) w)
     (Map_RenderToFile eng (Some mv) path opts w)"
proof (intro conjI)
  show "follows_status eng (m mv) (mapnik_map_load eng (m mv) (C_CString stylesheetFile) w)
     (Map_Load eng (Some mv) stylesheetFile w)"
    by (rule follows_statusI) (simp add: Map_Load_def Map_lastError_def split: prod.splits)
  show "follows_status eng (m mv) (mapnik_map_load_string eng (m mv) (C_CString stylesheet) w)
     (Map_LoadString eng (Some mv) stylesheet w)"
    by (rule follows_statusI) (simp add: Map_LoadString_def Map_lastError_def split: prod.splits)
  show "follows_status eng (m mv) (mapnik_map_zoom_all eng (m mv) w)
     (Map_ZoomAll eng (Some mv) w)"
    by (rule follows_statusI) (simp add: Map_ZoomAll_def Map_lastError_def split: prod.splits)
  show "follows_status eng (m mv)
     (mapnik_map_render_to_file eng (m mv) (C_CString path) (Scale opts)
        (if float64_eq (ScaleFactor opts) float64_0 then float64_1 else ScaleFactor opts)
        (C_CString (if Format opts = [] then ''png8'' else Format opts)) w)
     (Map_RenderToFile eng (Some mv) path opts w)"
    by (rule follows_statusI) (simp add: Map_RenderToFile_def Map_lastError_def split: prod.splits)
qed

text \<open>
  On the small engine: a missing file, a stylesheet that loads, a handle without extent and
  a refused output format.
\<close>

theorem fallible_operations_error_protocol_witness:
  "Map_Load demo_engine (Some \<lparr>m = Some 1\<rparr>) ''missing.xml'' None
     = (Inr (Some (errorString ''mapnik: file not found'')), Some (C_CString ''file not found''))
   \<and> Map_LoadString demo_engine (Some \<lparr>m = Some 1\<rparr>) ''<Map/>'' None = (Inr None, None)
   \<and> Map_ZoomAll demo_engine (Some \<lparr>m = Some 7\<rparr>) None
     = (Inr (Some (errorString ''mapnik: no extent'')), Some (C_CString ''no extent''))
   \<and> Map_RenderToFile demo_engine (Some \<lparr>m = Some 1\<rparr>) ''out.bmp''
       \<lparr>Scale = 0, ScaleFactor = 0, Format = ''bmp''\<rparr> None
     = (Inr (Some (errorString ''mapnik: unknown format'')), Some (C_CString ''unknown format''))"
  using fallible_operations_error_protocol [where eng = demo_engine and mv = "\<lparr>m = Some 1\<rparr>"
      and stylesheetFile = "''missing.xml''" and stylesheet = "''<Map/>''" and w = None
      and path = "''out.bmp''" and opts = "\<lparr>Scale = 0, ScaleFactor = 0, Format = ''bmp''\<rparr>"]
    fallible_operations_error_protocol [where eng = demo_engine and mv = "\<lparr>m = Some 7\<rparr>"
      and w = None]
  by (simp add: follows_status_def wraps_last_error_def demo_engine_simps C_CString_def
      C_GoString_def errors_New_def)

section \<open>Rendering\<close>

text \<open>
  C2. \<open>RenderToMemoryPng\<close> never consults \<open>opts.Format\<close>: replacing the format by any
  string, \<open>jpeg80\<close> included, changes neither what it returns nor what the engine receives.
  When the engine hands back an image, the bytes returned are those of the blob that the
  engine's PNG-blob encoder made of that image (for a blob length that is not negative as
  a C \<open>int\<close>), and the foreign calls are render-to-image, encode-to-PNG-blob, free the
  blob, free the image. \<open>RenderToFile\<close> is where the format is used: a non-empty format
  is handed to the engine as it is.
\<close>

theorem RenderToMemoryPng_ignores_Format:
  "Map_RenderToMemoryPng eng recv (opts\<lparr>Format := fmt\<rparr>) w = Map_RenderToMemoryPng eng recv opts w
   \<and> (mapnik_map_render_to_image eng (m mv) (Scale opts)
         (if float64_eq (ScaleFactor opts) float64_0 then float64_1 else ScaleFactor opts) w
         = (Some i, w1)
       \<and> mapnik_image_to_png_blob eng (Some i) w1 = (b, w2)
       \<and> 0 \<le> C_int (len b)
       \<longrightarrow> Map_RenderToMemoryPng (traced eng) (Some mv) (opts\<lparr>Format := fmt\<rparr>) (w, log)
           = (Inr (Some (map (ptr b) [0..<nat (C_int (len b))]), None),
              (mapnik_image_free eng (Some i) (mapnik_image_blob_free eng b w2),
               log @ [Call_map_render_to_image (m mv) (Scale opts)
                        (if float64_eq (ScaleFactor opts) float64_0 then float64_1
                         else ScaleFactor opts),
                      Call_image_to_png_blob (Some i),
                      Call_image_blob_free b,
                      Call_image_free (Some i)])))
   \<and> (Format opts \<noteq> [] \<longrightarrow>
        (\<exists>rest. snd (snd (Map_RenderToFile (traced eng) (Some mv) path opts (w, log)))
           = log @ Call_map_render_to_file (m mv) (C_CString path) (Scale opts)
                     (if float64_eq (ScaleFactor opts) float64_0 then float64_1
                      else ScaleFactor opts)
                     (C_CString (Format opts)) # rest))"
  by (cases recv)
     (simp_all add: Map_RenderToMemoryPng_def Map_RenderToFile_def Map_lastError_def
        return_lastError_def traced_simps record_call_apply record_proc_apply C_GoBytes_def Let_def)

text \<open>
  On the small engine, with the format \<open>jpeg80\<close>: the bytes are the PNG signature, and
  the same options make \<open>RenderToFile\<close> ask the engine for \<open>jpeg80\<close>.
\<close>

theorem RenderToMemoryPng_ignores_Format_witness:
  "Map_RenderToMemoryPng (traced demo_engine) (Some \<lparr>m = Some 1\<rparr>)
       \<lparr>Scale = 0, ScaleFactor = 0, Format = ''jpeg80''\<rparr> (None, [])
     = (Inr (Some png_magic, None),
        (None, [Call_map_render_to_image (Some 1) 0 float64_1,
                Call_image_to_png_blob (Some 2),
                Call_image_blob_free demo_blob,
                Call_image_free (Some 2)]))
   \<and> (\<exists>rest. snd (snd (Map_RenderToFile (traced demo_engine) (Some \<lparr>m = Some 1\<rparr>) ''out.jpg''
                  \<lparr>Scale = 0, ScaleFactor = 0, Format = ''jpeg80''\<rparr> (None, [])))
         = Call_map_render_to_file (Some 1) (C_CString ''out.jpg'') 0 float64_1
             (C_CString ''jpeg80'') # rest)"
  using RenderToMemoryPng_ignores_Format [where eng = demo_engine and mv = "\<lparr>m = Some 1\<rparr>"
      and opts = "\<lparr>Scale = 0, ScaleFactor = 0, Format = ''''\<rparr>" and fmt = "''jpeg80''"
      and w = None and log = "[]" and i = 2 and ?w1.0 = None and b = demo_blob and ?w2.0 = None]
    RenderToMemoryPng_ignores_Format [where eng = demo_engine and mv = "\<lparr>m = Some 1\<rparr>"
      and opts = "\<lparr>Scale = 0, ScaleFactor = 0, Format = ''jpeg80''\<rparr>" and path = "''out.jpg''"
      and w = None and log = "[]"]
  by (simp add: demo_engine_simps float64_simps demo_blob_bytes)

text \<open>
  C3. \<open>RenderToFile\<close> on a map makes one render-to-file call, whose scale factor is
  \<open>1.0\<close> when \<open>opts.ScaleFactor == 0.0\<close> and \<open>opts.ScaleFactor\<close> otherwise, and whose format
  is \<open>png8\<close> when \<open>opts.Format\<close> is empty and \<open>opts.Format\<close> otherwise; the only call that
  may follow is the one for the last error. Hence a call with the empty format and the
  same call with the format \<open>png8\<close> are the same, for every receiver and engine.
\<close>

theorem RenderToFile_defaults:
  "(\<exists>rest.
      snd (snd (Map_RenderToFile (traced eng) (Some mv) path opts (w, log)))
        = log @ Call_map_render_to_file (m mv) (C_CString path) (Scale opts)
                  (if float64_eq (ScaleFactor opts) float64_0 then float64_1 else ScaleFactor opts)
                  (C_CString (if Format opts = [] then ''png8'' else Format opts)) # rest
      \<and> (rest = [] \<or> rest = [Call_map_last_error (m mv)]))
   \<and> Map_RenderToFile eng recv path (opts\<lparr>Format := []\<rparr>) w
       = Map_RenderToFile eng recv path (opts\<lparr>Format := ''png8''\<rparr>) w"
  by (cases recv)
     (simp_all add: Map_RenderToFile_def Map_lastError_def return_lastError_def traced_simps
        record_call_apply Let_def)

text \<open>On the small engine, with no scale factor and no format set.\<close>

theorem RenderToFile_defaults_witness:
  "(\<exists>rest. snd (snd (Map_RenderToFile (traced demo_engine) (Some \<lparr>m = Some 1\<rparr>) ''out.png''
                \<lparr>Scale = 0, ScaleFactor = 0, Format = ''''\<rparr> (None, [])))
       = Call_map_render_to_file (Some 1) (C_CString ''out.png'') 0 float64_1 (C_CString ''png8'')
           # rest)
   \<and> Map_RenderToFile demo_engine (Some \<lparr>m = Some 1\<rparr>) ''out.png''
        \<lparr>Scale = 0, ScaleFactor = 0, Format = ''''\<rparr> None
      = Map_RenderToFile demo_engine (Some \<lparr>m = Some 1\<rparr>) ''out.png''
        \<lparr>Scale = 0, ScaleFactor = 0, Format = ''png8''\<rparr> None"
  using RenderToFile_defaults [where eng = demo_engine and mv = "\<lparr>m = Some 1\<rparr>"
      and recv = "Some \<lparr>m = Some 1\<rparr>" and path = "''out.png''"
      and opts = "\<lparr>Scale = 0, ScaleFactor = 0, Format = ''''\<rparr>" and w = None and log = "[]"]
  by (auto simp add: float64_simps)



text \<open>
  C10. \<open>RenderToMemoryPng\<close> applies the scale-factor default of \<open>RenderToFile\<close>: on a map,
  its first foreign call is render-to-image with scale factor \<open>1.0\<close> when
  \<open>opts.ScaleFactor == 0.0\<close>, and with \<open>opts.ScaleFactor\<close> itself for every other value,
  negative ones included.
\<close>

theorem RenderToMemoryPng_scale_factor_default:
  "(float64_eq (ScaleFactor opts) float64_0 \<longrightarrow>
      (\<exists>rest. snd (snd (Map_RenderToMemoryPng (traced eng) (Some mv) opts (w, log)))
         = log @ Call_map_render_to_image (m mv) (Scale opts) float64_1 # rest))
   \<and> (\<not> float64_eq (ScaleFactor opts) float64_0 \<longrightarrow>
      (\<exists>rest. snd (snd (Map_RenderToMemoryPng (traced eng) (Some mv) opts (w, log)))
         = log @ Call_map_render_to_image (m mv) (Scale opts) (ScaleFactor opts) # rest))"
  by (simp add: Map_RenderToMemoryPng_def Map_lastError_def traced_simps
      record_call_apply record_proc_apply Let_def split: sum.splits)

text \<open>
  On the small engine: negative zero compares equal to \<open>0.0\<close> and is replaced, minus two
  is handed on.
\<close>

theorem RenderToMemoryPng_scale_factor_default_witness:
  "float64_eq 0x8000000000000000 float64_0
   \<and> (\<exists>rest. snd (snd (Map_RenderToMemoryPng (traced demo_engine) (Some \<lparr>m = Some 1\<rparr>)
                  \<lparr>Scale = 0, ScaleFactor = 0x8000000000000000, Format = ''''\<rparr> (None, [])))
         = Call_map_render_to_image (Some 1) 0 float64_1 # rest)
   \<and> \<not> float64_eq 0xC000000000000000 float64_0
   \<and> (\<exists>rest. snd (snd (Map_RenderToMemoryPng (traced demo_engine) (Some \<lparr>m = Some 1\<rparr>)
                  \<lparr>Scale = 0, ScaleFactor = 0xC000000000000000, Format = ''''\<rparr> (None, [])))
         = Call_map_render_to_image (Some 1) 0 0xC000000000000000 # rest)"
  using RenderToMemoryPng_scale_factor_default [where eng = demo_engine
      and mv = "\<lparr>m = Some 1\<rparr>" and w = None and log = "[]"
      and opts = "\<lparr>Scale = 0, ScaleFactor = 0x8000000000000000, Format = ''''\<rparr>"]
    RenderToMemoryPng_scale_factor_default [where eng = demo_engine
      and mv = "\<lparr>m = Some 1\<rparr>" and w = None and log = "[]"
      and opts = "\<lparr>Scale = 0, ScaleFactor = 0xC000000000000000, Format = ''''\<rparr>"]
  by (simp add: float64_simps)

section \<open>Registration, handles and projection\<close>

text \<open>
  C5. \<open>RegisterDatasources(path)\<close> and \<open>RegisterFonts(path)\<close> each make one foreign call,
  with the path and a slot that holds a fresh copy of the path. They return nothing, and
  what the engine reports, through its status or through the slot, has no effect: two
  engines that leave the same state behind give the same outcome, whatever they report.
\<close>

theorem registration_failure_discarded:
  "snd (RegisterDatasources (traced eng) path (w, log))
     = log @ [Call_register_datasources (C_CString path) (Some (C_CString path))]
   \<and> snd (RegisterFonts (traced eng) path (w, log))
     = log @ [Call_register_fonts (C_CString path) (Some (C_CString path))]
   \<and> (snd (mapnik_register_datasources eng (C_CString path) (Some (C_CString path)) w)
        = snd (mapnik_register_datasources eng2 (C_CString path) (Some (C_CString path)) w)
      \<longrightarrow> RegisterDatasources eng path w = RegisterDatasources eng2 path w)
   \<and> (snd (mapnik_register_fonts eng (C_CString path) (Some (C_CString path)) w)
        = snd (mapnik_register_fonts eng2 (C_CString path) (Some (C_CString path)) w)
      \<longrightarrow> RegisterFonts eng path w = RegisterFonts eng2 path w)"
  by (simp add: RegisterDatasources_def RegisterFonts_def traced_simps record_call_apply Let_def
      split: prod.splits)

text \<open>
  The small engine reports that font registration failed, the quiet one that it succeeded;
  the caller of \<open>RegisterFonts\<close> cannot tell them apart.
\<close>

theorem registration_failure_discarded_witness:
  "fst (mapnik_register_fonts demo_engine (C_CString ''/fonts'') (Some (C_CString ''/fonts'')) None)
     \<noteq> fst (mapnik_register_fonts quiet_engine (C_CString ''/fonts'') (Some (C_CString ''/fonts''))
            None)
   \<and> snd (mapnik_register_fonts demo_engine (C_CString ''/fonts'') (Some (C_CString ''/fonts''))
            None)
     = snd (mapnik_register_fonts quiet_engine (C_CString ''/fonts'') (Some (C_CString ''/fonts''))
            None)
   \<and> RegisterFonts demo_engine ''/fonts'' None = RegisterFonts quiet_engine ''/fonts'' None"
  using registration_failure_discarded [where eng = demo_engine and ?eng2.0 = quiet_engine
      and path = "''/fonts''" and w = None]
  by (simp add: demo_engine_simps quiet_engine_simps)

text \<open>
  C6. \<open>Map.Free\<close> on a map hands the map's handle to the engine's free function and
  leaves the map with that one field set to nil and nothing else changed;
  \<open>Projection.Free\<close> does the same for a projection.
\<close>

theorem Free_nulls_handle:
  "Map_Free eng (Some mv) w = (Inr (mv\<lparr>m := None\<rparr>), mapnik_map_free eng (m mv) w)
   \<and> snd (snd (Map_Free (traced eng) (Some mv) (w, log))) = log @ [Call_map_free (m mv)]
   \<and> Projection_Free eng (Some pv) w = (Inr (pv\<lparr>p := None\<rparr>), mapnik_projection_free eng (p pv) w)
   \<and> snd (snd (Projection_Free (traced eng) (Some pv) (w, log)))
       = log @ [Call_projection_free (p pv)]"
  by (simp add: Map_Free_def Projection_Free_def traced_simps record_proc_apply Let_def)

theorem Free_nulls_handle_witness:
  "Map_Free demo_engine (Some \<lparr>m = Some 1\<rparr>) None = (Inr \<lparr>m = None\<rparr>, None)
   \<and> snd (snd (Map_Free (traced demo_engine) (Some \<lparr>m = Some 1\<rparr>) (None, [])))
       = [Call_map_free (Some 1)]
   \<and> Projection_Free demo_engine (Some \<lparr>p = Some 4\<rparr>) None = (Inr \<lparr>p = None\<rparr>, None)
   \<and> snd (snd (Projection_Free (traced demo_engine) (Some \<lparr>p = Some 4\<rparr>) (None, [])))
       = [Call_projection_free (Some 4)]"
  using Free_nulls_handle [where eng = demo_engine and mv = "\<lparr>m = Some 1\<rparr>"
      and pv = "\<lparr>p = Some 4\<rparr>" and w = None and log = "[]"]
  by (simp add: demo_engine_simps)

text \<open>
  C8. \<open>NewMap(width, height)\<close> has no error result and no branch: for every width and
  height it makes one foreign call and returns a non-nil pointer to a \<open>Map\<close> that holds
  the handle the engine gave.
\<close>

theorem NewMap_cannot_fail:
  "fst (NewMap eng width height w) = Some \<lparr>m = fst (mapnik_map eng width height w)\<rparr>
   \<and> fst (NewMap eng width height w) \<noteq> None
   \<and> snd (NewMap eng width height w) = snd (mapnik_map eng width height w)
   \<and> snd (snd (NewMap (traced eng) width height (w, log))) = log @ [Call_map width height]"
  by (simp add: NewMap_def traced_simps record_call_apply Let_def split: prod.splits)

theorem NewMap_cannot_fail_witness:
  "fst (NewMap demo_engine 256 256 None) = Some \<lparr>m = Some 1\<rparr>
   \<and> snd (snd (NewMap (traced demo_engine) 256 256 (None, []))) = [Call_map 256 256]"
  using NewMap_cannot_fail [where eng = demo_engine and width = 256 and height = 256
      and w = None and log = "[]"]
  by (simp add: demo_engine_simps)

text \<open>
  C9. \<open>Projection.Forward\<close> takes its projection and its coordinate by value and has no
  error result: it makes one foreign call, the forward transform of the projection's
  handle on the coordinate's \<open>X\<close> and \<open>Y\<close>, and returns what the engine answers as a new
  \<open>Coord\<close>. Nothing of the projection or of the input coordinate is written.
\<close>

theorem Forward_pure:
  "Projection_Forward eng pv coord w
     = (\<lparr>X = fst (fst (mapnik_projection_forward eng (p pv) (X coord, Y coord) w)),
         Y = snd (fst (mapnik_projection_forward eng (p pv) (X coord, Y coord) w))\<rparr>,
        snd (mapnik_projection_forward eng (p pv) (X coord, Y coord) w))
   \<and> snd (snd (Projection_Forward (traced eng) pv coord (w, log)))
       = log @ [Call_projection_forward (p pv) (X coord, Y coord)]"
  by (simp add: Projection_Forward_def traced_simps record_call_apply Let_def split: prod.splits)

theorem Forward_pure_witness:
  "Projection_Forward demo_engine \<lparr>p = Some 4\<rparr> \<lparr>X = 5, Y = 9\<rparr> None = (\<lparr>X = 9, Y = 5\<rparr>, None)
   \<and> snd (snd (Projection_Forward (traced demo_engine) \<lparr>p = Some 4\<rparr> \<lparr>X = 5, Y = 9\<rparr> (None, [])))
       = [Call_projection_forward (Some 4) (5, 9)]"
  using Forward_pure [where eng = demo_engine and pv = "\<lparr>p = Some 4\<rparr>"
      and coord = "\<lparr>X = 5, Y = 9\<rparr>" and w = None and log = "[]"]
  by (simp add: demo_engine_simps)

section \<open>Initialisation\<close>

text \<open>
  A call of the client only adds to the record of foreign calls, and what it adds does not
  depend on what was recorded before.
\<close>

lemma exec_call_traced:
  "exec_call (traced eng) c (w, log) =
     (case exec_call (traced eng) c (w, []) of (b, (w1, l1)) \<Rightarrow> (b, (w1, log @ l1)))"
  by (cases c)
     (simp_all add: traced_simps record_call_apply record_proc_apply returned_def finished_def
        package_defs Let_def split: option.splits sum.splits)

text \<open>Only the two registration functions make a registration call.\<close>

lemma exec_call_no_registration:
  "\<not> registers_path c \<Longrightarrow>
     filter is_registration (snd (snd (exec_call (traced eng) c (w, [])))) = []"
  by (cases c)
     (simp_all add: traced_simps record_call_apply record_proc_apply returned_def finished_def
        package_defs Let_def split: option.splits sum.splits)

lemma run_calls_traced:
  "snd (run_calls (traced eng) cs (w, log)) = log @ snd (run_calls (traced eng) cs (w, []))"
proof (induction cs arbitrary: w log)
  case Nil
  show ?case by simp
next
  case (Cons c cs)
  obtain b w1 l1 where e: "exec_call (traced eng) c (w, []) = (b, (w1, l1))"
    by (metis prod.exhaust)
  then have e2: "exec_call (traced eng) c (w, log) = (b, (w1, log @ l1))"
    by (simp add: exec_call_traced [of eng c w log])
  show ?case
  proof (cases b)
    case True
    with e e2 show ?thesis by simp
  next
    case False
    with e e2 Cons.IH [of w1 "log @ l1"] Cons.IH [of w1 l1] show ?thesis by simp
  qed
qed

lemma run_calls_no_registration:
  "\<forall>c \<in> set cs. \<not> registers_path c \<Longrightarrow>
     filter is_registration (snd (run_calls (traced eng) cs (w, []))) = []"
proof (induction cs arbitrary: w)
  case Nil
  show ?case by simp
next
  case (Cons c cs)
  obtain b w1 l1 where e: "exec_call (traced eng) c (w, []) = (b, (w1, l1))"
    by (metis prod.exhaust)
  from Cons.prems have "\<not> registers_path c" by simp
  then have l1: "filter is_registration l1 = []"
    using exec_call_no_registration [of c eng w] e by simp
  show ?case
  proof (cases b)
    case True
    with e l1 show ?thesis by simp
  next
    case False
    have "filter is_registration (snd (run_calls (traced eng) cs (w1, []))) = []"
      using Cons.IH [of w1] Cons.prems by simp
    with False e l1 run_calls_traced [of eng cs w1 l1] show ?thesis by simp
  qed
qed

lemma init_traced:
  "init (traced eng) pluginPath fontPath (w, log) =
     (init eng pluginPath fontPath w,
      log @ [Call_register_datasources (C_CString pluginPath) (Some (C_CString pluginPath)),
             Call_register_fonts (C_CString fontPath) (Some (C_CString fontPath))])"
  by (simp add: init_def RegisterDatasources_def RegisterFonts_def traced_simps record_call_apply
      Let_def split: prod.splits)

lemma run_process_answers:
  "fst (run_process (traced eng) pluginPath fontPath cs (w, log))
     = run_process eng pluginPath fontPath cs w"
  by (simp add: run_process_def init_traced run_calls_answers)

text \<open>
  C7. In every process, whatever the client calls, the first two foreign calls are the
  registration of the package's datasource-plugin path and of its font path, in this order,
  made by \<open>init\<close> with the package's two constants. They come before every call that hands
  out a handle, and the package makes them once: in a process whose client does not itself
  call \<open>RegisterDatasources\<close> or \<open>RegisterFonts\<close>, they are the only registration calls.
\<close>

theorem init_registers_once_before_all:
  "take 2 (snd (run_process (traced eng) pluginPath fontPath cs (w, [])))
     = [Call_register_datasources (C_CString pluginPath) (Some (C_CString pluginPath)),
        Call_register_fonts (C_CString fontPath) (Some (C_CString fontPath))]
   \<and> ((\<forall>c \<in> set cs. \<not> registers_path c) \<longrightarrow>
        filter is_registration (snd (run_process (traced eng) pluginPath fontPath cs (w, [])))
          = [Call_register_datasources (C_CString pluginPath) (Some (C_CString pluginPath)),
             Call_register_fonts (C_CString fontPath) (Some (C_CString fontPath))])
   \<and> (k < length (snd (run_process (traced eng) pluginPath fontPath cs (w, [])))
        \<and> creates_handle (snd (run_process (traced eng) pluginPath fontPath cs (w, [])) ! k)
          \<longrightarrow> 2 \<le> k)"
proof -
  let ?reg = "[Call_register_datasources (C_CString pluginPath) (Some (C_CString pluginPath)),
        Call_register_fonts (C_CString fontPath) (Some (C_CString fontPath))]"
  let ?rest = "snd (run_calls (traced eng) cs (init eng pluginPath fontPath w, []))"
  have shape: "snd (run_process (traced eng) pluginPath fontPath cs (w, [])) = ?reg @ ?rest"
    using run_calls_traced [of eng cs "init eng pluginPath fontPath w" ?reg]
    by (simp add: run_process_def init_traced)
  have a: "take 2 (?reg @ ?rest) = ?reg" by simp
  have b: "(\<forall>c \<in> set cs. \<not> registers_path c) \<longrightarrow> filter is_registration (?reg @ ?rest) = ?reg"
    using run_calls_no_registration [of cs eng "init eng pluginPath fontPath w"] by simp
  have c: "k < length (?reg @ ?rest) \<and> creates_handle ((?reg @ ?rest) ! k) \<longrightarrow> 2 \<le> k"
  proof (intro impI)
    assume h: "k < length (?reg @ ?rest) \<and> creates_handle ((?reg @ ?rest) ! k)"
    show "2 \<le> k"
    proof (rule ccontr)
      assume "\<not> 2 \<le> k"
      then have "k = 0 \<or> k = 1" by arith
      with h show False by auto
    qed
  qed
  from a b c show ?thesis unfolding shape by blast
qed

text \<open>
  A process on the small engine whose client creates a map and loads a stylesheet: four
  foreign calls, the third of which hands out the map's handle.
\<close>

lemma demo_process_calls:
  "snd (run_process (traced demo_engine) ''/plugins'' ''/fonts''
          [Do_NewMap 256 256, Do_Load (Some \<lparr>m = Some 1\<rparr>) ''ok.xml''] (None, []))
     = [Call_register_datasources (C_CString ''/plugins'') (Some (C_CString ''/plugins'')),
        Call_register_fonts (C_CString ''/fonts'') (Some (C_CString ''/fonts'')),
        Call_map 256 256,
        Call_map_load (Some 1) (C_CString ''ok.xml'')]"
  by (simp add: run_process_def init_def RegisterDatasources_def RegisterFonts_def NewMap_def
      Map_Load_def returned_def finished_def traced_simps record_call_apply demo_engine_simps
      Let_def)

theorem init_registers_once_before_all_witness:
  "\<not> registers_path (Do_NewMap 256 256)
   \<and> \<not> registers_path (Do_Load (Some \<lparr>m = Some 1\<rparr>) ''ok.xml'')
   \<and> filter is_registration
        (snd (run_process (traced demo_engine) ''/plugins'' ''/fonts''
           [Do_NewMap 256 256, Do_Load (Some \<lparr>m = Some 1\<rparr>) ''ok.xml''] (None, [])))
      = [Call_register_datasources (C_CString ''/plugins'') (Some (C_CString ''/plugins'')),
         Call_register_fonts (C_CString ''/fonts'') (Some (C_CString ''/fonts''))]
   \<and> take 2 (snd (run_process (traced demo_engine) ''/plugins'' ''/fonts''
           [Do_NewMap 256 256, Do_Load (Some \<lparr>m = Some 1\<rparr>) ''ok.xml''] (None, [])))
      = [Call_register_datasources (C_CString ''/plugins'') (Some (C_CString ''/plugins'')),
         Call_register_fonts (C_CString ''/fonts'') (Some (C_CString ''/fonts''))]
   \<and> creates_handle
        (snd (run_process (traced demo_engine) ''/plugins'' ''/fonts''
           [Do_NewMap 256 256, Do_Load (Some \<lparr>m = Some 1\<rparr>) ''ok.xml''] (None, [])) ! 2)
   \<and> (2 :: nat) \<le> 2"
  using init_registers_once_before_all [where eng = demo_engine and pluginPath = "''/plugins''"
      and fontPath = "''/fonts''" and w = None and k = 2
      and cs = "[Do_NewMap 256 256, Do_Load (Some \<lparr>m = Some 1\<rparr>) ''ok.xml'']"]
  unfolding demo_process_calls
  by simp

end
